theory Spec2Isabelle
  imports Main "HOL-Library.Word"
begin

unbundle bit_operations_syntax

section \<open>Bytes on the wire\<close>

text \<open>
  The federate side of the RTI protocol (federate.c) moves bytes over one TCP socket.
  A byte is an \<open>unsigned char\<close>; \<open>unsigned short\<close>, \<open>unsigned int\<close> and
  \<open>long long\<close> (\<open>instant_t\<close>, \<open>interval_t\<close>) are 16, 32 and 64 bit words, and
  \<open>size_t\<close> is taken as 64 bits.
\<close>

type_synonym byte = "8 word"

text \<open>
  Little-endian byte strings: \<open>le_bytes n x\<close> are the \<open>n\<close> low bytes of \<open>x\<close>, least
  significant first, and \<open>le_word\<close> reads such a string back.
\<close>

fun le_bytes :: "nat \<Rightarrow> 'a::len word \<Rightarrow> byte list" where
  "le_bytes 0 x = []"
| "le_bytes (Suc n) x = ucast x # le_bytes n (drop_bit 8 x)"

fun le_word :: "byte list \<Rightarrow> 'a::len word" where
  "le_word [] = 0"
| "le_word (b # bs) = ucast b OR push_bit 8 (le_word bs)"

text \<open>
  Modelled from the spec: \<open>encode_ushort\<close> of util.c, which is not among the sources;
  section 4.1 fixes a u16 field as two bytes, little-endian.
\<close>

definition encode_ushort :: "16 word \<Rightarrow> byte list" where
  "encode_ushort x = le_bytes 2 x"

text \<open>
  Modelled from the spec: \<open>encode_int\<close> of util.c, which is not among the sources;
  section 4.1 fixes the u32 length field as four bytes, little-endian.
\<close>

definition encode_int :: "32 word \<Rightarrow> byte list" where
  "encode_int x = le_bytes 4 x"

text \<open>
  Modelled from the spec: \<open>encode_ll\<close> of util.c, which is not among the sources;
  section 4.1 fixes the i64 timestamp as eight bytes, little-endian.
\<close>

definition encode_ll :: "64 word \<Rightarrow> byte list" where
  "encode_ll x = le_bytes 8 x"

text \<open>
  Modelled from the spec: \<open>extract_ll\<close> of util.c, which is not among the sources;
  it reads the eight bytes at the given address as a little-endian i64.
\<close>

definition extract_ll :: "byte list \<Rightarrow> 64 word" where
  "extract_ll buffer = le_word (take 8 buffer)"

text \<open>
  Modelled from the spec: \<open>extract_header\<close> of util.c, which is not among the sources;
  section 4.1 lays the header out as u16 port, u16 federate, u32 length, little-endian.
  The three out-parameters are returned as a triple.
\<close>

definition extract_header :: "byte list \<Rightarrow> 16 word \<times> 16 word \<times> 32 word" where
  "extract_header buffer =
     (le_word (take 2 buffer), le_word (take 2 (drop 2 buffer)), le_word (take 4 (drop 4 buffer)))"

text \<open>
  The handshake messages are written from the object representation of an \<open>int\<close> or a
  \<open>long long\<close>, after \<open>swap_bytes_if_big_endian\<close>. \<open>object_bytes\<close> is the
  representation in memory on a host of the given endianness and \<open>object_word\<close> reads
  a value from memory.
\<close>

definition object_bytes :: "bool \<Rightarrow> nat \<Rightarrow> 'a::len word \<Rightarrow> byte list" where
  "object_bytes big_endian n x = (if big_endian then rev (le_bytes n x) else le_bytes n x)"

definition object_word :: "bool \<Rightarrow> byte list \<Rightarrow> 'a::len word" where
  "object_word big_endian bs = (if big_endian then le_word (rev bs) else le_word bs)"

text \<open>
  Modelled from the spec: \<open>swap_bytes_if_big_endian_int\<close> of util.c, which is not among
  the sources; section 4.1: the value is byte-swapped only if the host is big-endian.
\<close>

definition swap_bytes_if_big_endian_int :: "bool \<Rightarrow> 32 word \<Rightarrow> 32 word" where
  "swap_bytes_if_big_endian_int big_endian x =
     (if big_endian then le_word (rev (le_bytes 4 x)) else x)"

text \<open>
  Modelled from the spec: \<open>swap_bytes_if_big_endian_ll\<close> of util.c, which is not among
  the sources; the 64 bit analogue of the above.
\<close>

definition swap_bytes_if_big_endian_ll :: "bool \<Rightarrow> 64 word \<Rightarrow> 64 word" where
  "swap_bytes_if_big_endian_ll big_endian x =
     (if big_endian then le_word (rev (le_bytes 8 x)) else x)"

section \<open>Constants of rti.h\<close>

text \<open>
  rti.h is not among the sources. Its message type bytes and the retry constants are
  parameters of the model.
\<close>

record rti_h =
  FED_ID :: byte
  TIMESTAMP :: byte
  MESSAGE :: byte
  TIMED_MESSAGE :: byte
  CONNECT_NUM_RETRIES :: int
  CONNECT_RETRY_INTERVAL :: int

definition ERROR_UNRECOGNIZED_MESSAGE_TYPE :: string where
  "ERROR_UNRECOGNIZED_MESSAGE_TYPE = ''ERROR Received from RTI an unrecognized message type''"

section \<open>The federate's state and its environment\<close>

text \<open>
  The calls the federate makes into its collaborators, in the order it makes them:
  \<open>connect\<close> on the RTI socket, \<open>nanosleep\<close> (with the requested seconds and whether
  the sleep was interrupted), \<open>pthread_mutex_lock\<close> and \<open>pthread_mutex_unlock\<close> on
  the one mutex, \<open>get_logical_time\<close> (with the value it returned) and
  \<open>schedule_value (__action_for_port port_id) delay message_contents length\<close>.
\<close>

datatype call =
    Connect
  | Nanosleep int bool
  | Mutex_lock
  | Mutex_unlock
  | Get_logical_time "64 word"
  | Schedule_value "16 word" "64 word" "byte list"

text \<open>
  \<open>rti_in\<close> holds the bytes the RTI has sent and the federate has not read yet,
  \<open>rti_out\<close> the bytes written to \<open>rti_socket\<close>, \<open>rti_writable\<close> whether a write
  to the socket succeeds, \<open>current_time\<close> the logical time of reactor.h.
\<close>

record federate =
  rti_in :: "byte list"
  rti_out :: "byte list"
  rti_writable :: bool
  current_time :: "64 word"
  calls :: "call list"

text \<open>
  Modelled from the spec: \<open>error\<close> of util.c, which is not among the sources; section 7
  makes every failure it reports fatal, and the sources call it where the program
  cannot go on ("If this fails, the program exits"). A call \<open>error(msg)\<close> ends the
  process and is the value \<open>Error msg\<close>. The other ways the process stops are a failed
  \<open>assert\<close> (with the asserted expression), \<open>exit\<close> with its status, and a failure
  inside \<open>read_from_socket\<close> or \<open>write_to_socket\<close>.
\<close>

datatype failure =
    Assertion string
  | Exit int
  | Error string
  | Socket_failure

text \<open>
  Modelled from the spec: \<open>write_to_socket\<close> of util.c, which is not among the sources;
  section 1: it drains the whole buffer or fails.
\<close>

definition write_to_socket :: "byte list \<Rightarrow> federate \<Rightarrow> (failure + unit) \<times> federate" where
  "write_to_socket bytes s =
     (if rti_writable s then (Inr (), s\<lparr>rti_out := rti_out s @ bytes\<rparr>)
      else (Inl Socket_failure, s))"

text \<open>
  Modelled from the spec: \<open>read_from_socket\<close> of util.c, which is not among the sources;
  section 1: it fills the whole buffer or fails. \<open>rti_in\<close> is the finite sequence of
  bytes the RTI sends before it closes the connection; a read fails when the stream ends
  before the requested number of bytes.
\<close>

definition read_from_socket :: "nat \<Rightarrow> federate \<Rightarrow> (failure + byte list) \<times> federate" where
  "read_from_socket num_bytes s =
     (if num_bytes \<le> length (rti_in s)
      then (Inr (take num_bytes (rti_in s)), s\<lparr>rti_in := drop num_bytes (rti_in s)\<rparr>)
      else (Inl Socket_failure, s))"

text \<open>POSIX \<open>write\<close> on \<open>rti_socket\<close>: the number of bytes written, or -1.\<close>

definition posix_write :: "byte list \<Rightarrow> federate \<Rightarrow> int \<times> federate" where
  "posix_write bytes s =
     (if rti_writable s then (int (length bytes), s\<lparr>rti_out := rti_out s @ bytes\<rparr>)
      else (- 1, s))"

text \<open>
  Modelled from the spec: \<open>get_logical_time\<close> of the reactor runtime, which is not among
  the sources; section 6: the clock source returns the current logical instant. The
  call is recorded with the value it returns.
\<close>

definition get_logical_time :: "federate \<Rightarrow> 64 word \<times> federate" where
  "get_logical_time s = (current_time s, s\<lparr>calls := calls s @ [Get_logical_time (current_time s)]\<rparr>)"

text \<open>
  Modelled from the spec: \<open>schedule_value\<close> of the reactor runtime, which is not among
  the sources; section 6: the scheduler takes an action reference, a delay and a
  payload. The call is recorded with the port whose action it is given, the delay and
  the payload; the handle it returns is not used by the federate.
\<close>

definition schedule_value :: "16 word \<Rightarrow> 64 word \<Rightarrow> byte list \<Rightarrow> federate \<Rightarrow> federate" where
  "schedule_value port_id delay message_contents s =
     s\<lparr>calls := calls s @ [Schedule_value port_id delay message_contents]\<rparr>"

text \<open>Locking and unlocking the one mutex of the runtime are recorded as calls.\<close>

definition pthread_mutex_lock :: "federate \<Rightarrow> federate" where
  "pthread_mutex_lock s = s\<lparr>calls := calls s @ [Mutex_lock]\<rparr>"

definition pthread_mutex_unlock :: "federate \<Rightarrow> federate" where
  "pthread_mutex_unlock s = s\<lparr>calls := calls s @ [Mutex_unlock]\<rparr>"

section \<open>Sending\<close>

text \<open>
  \<open>send_via_rti port federate length message\<close>. The message and its length are one
  byte list. The nine header bytes are the masked values, converted to
  \<open>unsigned char\<close> by the assignment.
\<close>

definition send_via_rti ::
  "rti_h \<Rightarrow> 32 word \<Rightarrow> 32 word \<Rightarrow> byte list \<Rightarrow> federate \<Rightarrow> (failure + unit) \<times> federate" where
  "send_via_rti h port federate message s =
     (if \<not> port < 65536 then (Inl (Assertion ''port < 65536''), s)
      else if \<not> federate < 65536 then (Inl (Assertion ''federate < 65536''), s)
      else
        let len = (of_nat (length message) :: 64 word);
            buffer = [MESSAGE h,
                      ucast (port AND 0xff),
                      ucast (port AND 0xff00),
                      ucast (federate AND 0xff),
                      ucast (federate AND 0xff00),
                      ucast (len AND 0xff),
                      ucast (len AND 0xff00),
                      ucast (len AND 0xff0000),
                      ucast (len AND 0xff000000)]
        in case write_to_socket buffer s of
             (Inl e, s1) \<Rightarrow> (Inl e, s1)
           | (Inr _, s1) \<Rightarrow> write_to_socket message s1)"

definition send_via_rti_timed ::
  "rti_h \<Rightarrow> 32 word \<Rightarrow> 32 word \<Rightarrow> byte list \<Rightarrow> federate \<Rightarrow> (failure + unit) \<times> federate" where
  "send_via_rti_timed h port federate message s =
     (if \<not> port < 65536 then (Inl (Assertion ''port < 65536''), s)
      else if \<not> federate < 65536 then (Inl (Assertion ''federate < 65536''), s)
      else
        let len = (of_nat (length message) :: 64 word);
            (current_time, s1) = get_logical_time s;
            buffer = [TIMED_MESSAGE h] @ encode_ushort (ucast port) @ encode_ushort (ucast federate)
                       @ encode_int (ucast len) @ encode_ll current_time
        in case write_to_socket buffer s1 of
             (Inl e, s2) \<Rightarrow> (Inl e, s2)
           | (Inr _, s2) \<Rightarrow> write_to_socket message s2)"

section \<open>Connecting to the RTI\<close>

text \<open>
  What one pass through the loop of \<open>connect_to_rti\<close> meets: \<open>socket\<close> fails,
  \<open>gethostbyname\<close> finds no host, \<open>connect\<close> fails (and the \<open>nanosleep\<close> that
  follows is interrupted or not), or \<open>connect\<close> succeeds.
\<close>

datatype attempt = Socket_fails | No_such_host | Connect_fails bool | Connect_ok

text \<open>
  The \<open>while (result < 0)\<close> loop. \<open>net k\<close> is what attempt number \<open>k\<close> meets.
  \<open>count_retries\<close> is a C \<open>int\<close>; it stays at most one above
  \<open>CONNECT_NUM_RETRIES\<close>, so it does not overflow as long as that constant is below
  \<open>INT_MAX\<close>. After the sleep the loop goes on in the same way, whether the sleep was
  interrupted (\<open>continue\<close>) or not.
\<close>

function connect_loop ::
  "rti_h \<Rightarrow> (nat \<Rightarrow> attempt) \<Rightarrow> nat \<Rightarrow> int \<Rightarrow> federate \<Rightarrow> (failure + unit) \<times> federate" where
  "connect_loop h net k count_retries s =
     (case net k of
        Socket_fails \<Rightarrow> (Inl (Error ''ERROR on federate creating socket to RTI''), s)
      | No_such_host \<Rightarrow> (Inl (Exit 1), s)
      | Connect_ok \<Rightarrow> (Inr (), s\<lparr>calls := calls s @ [Connect]\<rparr>)
      | Connect_fails interrupted \<Rightarrow>
          let s1 = s\<lparr>calls := calls s @ [Connect]\<rparr>;
              count_retries = count_retries + 1
          in if count_retries > CONNECT_NUM_RETRIES h then (Inl (Exit 2), s1)
             else
               let s2 = s1\<lparr>calls := calls s1 @ [Nanosleep (CONNECT_RETRY_INTERVAL h) interrupted]\<rparr>
               in if interrupted then connect_loop h net (Suc k) count_retries s2
                  else connect_loop h net (Suc k) count_retries s2)"
  by pat_completeness auto
termination
  by (relation "measure (\<lambda>(h, net, k, count_retries, s).
        nat (CONNECT_NUM_RETRIES h + 1 - count_retries))") auto

declare connect_loop.simps [simp del]

definition connect_to_rti ::
  "rti_h \<Rightarrow> bool \<Rightarrow> (nat \<Rightarrow> attempt) \<Rightarrow> 32 word \<Rightarrow> federate \<Rightarrow> (failure + unit) \<times> federate" where
  "connect_to_rti h big_endian net federate_id s =
     (case connect_loop h net 0 0 s of
        (Inl e, s1) \<Rightarrow> (Inl e, s1)
      | (Inr _, s1) \<Rightarrow>
          (case posix_write [FED_ID h] s1 of (bytes_written, s2) \<Rightarrow>
             if bytes_written < 0 then (Inl (Error ''ERROR sending federate ID to RTI''), s2)
             else
               let message = swap_bytes_if_big_endian_int big_endian federate_id in
               (case posix_write (object_bytes big_endian 4 message) s2 of (bytes_written, s3) \<Rightarrow>
                  if bytes_written < 0 then (Inl (Error ''ERROR sending federate ID to RTI''), s3)
                  else (Inr (), s3))))"

section \<open>The start time handshake\<close>

definition get_start_time_from_rti ::
  "rti_h \<Rightarrow> bool \<Rightarrow> 64 word \<Rightarrow> federate \<Rightarrow> (failure + 64 word) \<times> federate" where
  "get_start_time_from_rti h big_endian my_physical_time s =
     (case posix_write [TIMESTAMP h] s of (bytes_written, s1) \<Rightarrow>
        if bytes_written < 0 then (Inl (Error ''ERROR sending message ID to RTI''), s1)
        else
          let message = swap_bytes_if_big_endian_ll big_endian my_physical_time in
          (case posix_write (object_bytes big_endian 8 message) s1 of (bytes_written, s2) \<Rightarrow>
             if bytes_written < 0 then (Inl (Error ''ERROR sending message to RTI''), s2)
             else
               (case read_from_socket 9 s2 of
                  (Inl e, s3) \<Rightarrow> (Inl e, s3)
                | (Inr buffer, s3) \<Rightarrow>
                    if buffer ! 0 \<noteq> TIMESTAMP h then (Inl (Exit 1), s3)
                    else
                      let timestamp = swap_bytes_if_big_endian_ll big_endian
                            (object_word big_endian (take 8 (drop 1 buffer)))
                      in (Inr timestamp, s3))))"

section \<open>Receiving\<close>

definition handle_message :: "federate \<Rightarrow> (failure + unit) \<times> federate" where
  "handle_message s =
     (case read_from_socket 8 s of
        (Inl e, s1) \<Rightarrow> (Inl e, s1)
      | (Inr buffer, s1) \<Rightarrow>
          (case extract_header buffer of (port_id, federate_id, len) \<Rightarrow>
             (case read_from_socket (unat len) s1 of
                (Inl e, s2) \<Rightarrow> (Inl e, s2)
              | (Inr message_contents, s2) \<Rightarrow>
                  (Inr (), schedule_value port_id 0 message_contents s2))))"

definition handle_timed_message :: "federate \<Rightarrow> (failure + unit) \<times> federate" where
  "handle_timed_message s =
     (case read_from_socket 8 s of
        (Inl e, s1) \<Rightarrow> (Inl e, s1)
      | (Inr buffer, s1) \<Rightarrow>
          (case extract_header buffer of (port_id, federate_id, len) \<Rightarrow>
             (case read_from_socket 8 s1 of
                (Inl e, s2) \<Rightarrow> (Inl e, s2)
              | (Inr buffer8, s2) \<Rightarrow>
                  let timestamp = extract_ll buffer8 in
                  (case read_from_socket (unat len) s2 of
                     (Inl e, s3) \<Rightarrow> (Inl e, s3)
                   | (Inr message_contents, s3) \<Rightarrow>
                       let s4 = pthread_mutex_lock s3;
                           (now, s5) = get_logical_time s4;
                           delay = timestamp - now;
                           s6 = schedule_value port_id delay message_contents s5
                       in (Inr (), pthread_mutex_unlock s6)))))"

text \<open>
  The \<open>while (1)\<close> loop of \<open>listen_to_rti\<close>. It never returns normally; over a finite
  stream it ends when a read fails or a message type is not recognised. The \<open>switch\<close> is
  read as a chain of comparisons in the order of its cases.
\<close>

function listen_to_rti :: "rti_h \<Rightarrow> federate \<Rightarrow> failure \<times> federate" where
  "listen_to_rti h s =
     (case read_from_socket 1 s of
        (Inl e, s1) \<Rightarrow> (e, s1)
      | (Inr buffer, s1) \<Rightarrow>
          if buffer ! 0 = MESSAGE h then
            (case handle_message s1 of
               (Inl e, s2) \<Rightarrow> (e, s2)
             | (Inr _, s2) \<Rightarrow> listen_to_rti h s2)
          else if buffer ! 0 = TIMED_MESSAGE h then
            (case handle_timed_message s1 of
               (Inl e, s2) \<Rightarrow> (e, s2)
             | (Inr _, s2) \<Rightarrow> listen_to_rti h s2)
          else (Error ERROR_UNRECOGNIZED_MESSAGE_TYPE, s1))"
  by pat_completeness auto
termination
proof (relation "measure (\<lambda>(h, s). length (rti_in s))")
  show "wf (measure (\<lambda>(h :: rti_h, s). length (rti_in s)))" by simp
next
  fix h :: rti_h and s x1 s1 buffer x2 s2
  assume r: "(x1, s1) = read_from_socket 1 s" "x1 = Inr buffer"
    and m: "(x2, s2) = handle_message s1"
  from r have "length (rti_in s1) < length (rti_in s)"
    by (auto simp add: read_from_socket_def split: if_splits)
  moreover from m have "length (rti_in s2) \<le> length (rti_in s1)"
    by (auto simp add: handle_message_def read_from_socket_def schedule_value_def
        split: if_splits prod.splits sum.splits)
  ultimately show "((h, s2), (h, s)) \<in> measure (\<lambda>(h, s). length (rti_in s))" by simp
next
  fix h :: rti_h and s x1 s1 buffer x2 s2
  assume r: "(x1, s1) = read_from_socket 1 s" "x1 = Inr buffer"
    and m: "(x2, s2) = handle_timed_message s1"
  from r have "length (rti_in s1) < length (rti_in s)"
    by (auto simp add: read_from_socket_def split: if_splits)
  moreover from m have "length (rti_in s2) \<le> length (rti_in s1)"
    by (auto simp add: handle_timed_message_def read_from_socket_def schedule_value_def
        pthread_mutex_lock_def pthread_mutex_unlock_def get_logical_time_def Let_def
        split: if_splits prod.splits sum.splits)
  ultimately show "((h, s2), (h, s)) \<in> measure (\<lambda>(h, s). length (rti_in s))" by simp
qed

declare listen_to_rti.simps [simp del]

text \<open>
  The sequences of calls a listener can make while it delivers messages. Each delivery
  is either one \<open>schedule_value\<close> with delay 0 outside any lock, or the four calls lock,
  \<open>get_logical_time\<close>, \<open>schedule_value\<close>, unlock.
\<close>

fun deliveries :: "call list \<Rightarrow> bool" where
  "deliveries [] = True"
| "deliveries (Schedule_value port_id delay message_contents # cs) = (delay = 0 \<and> deliveries cs)"
| "deliveries (Mutex_lock # Get_logical_time now # Schedule_value port_id delay message_contents
      # Mutex_unlock # cs) = deliveries cs"
| "deliveries cs = False"

section \<open>Facts about the wire format\<close>

lemma le_bytes_numeral:
  "le_bytes (numeral k) x = ucast x # le_bytes (pred_numeral k) (drop_bit 8 x)"
  by (simp add: numeral_eq_Suc)

lemma length_le_bytes: "length (le_bytes n x) = n"
  by (induction n arbitrary: x) simp_all

lemma le_word_step:
  "ucast (ucast x :: byte) OR push_bit 8 (take_bit m (drop_bit 8 x))
     = take_bit (8 + m) (x :: 'a::len word)"
  by (rule bit_word_eqI) (auto simp add: bit_simps)

text \<open>Reading back the \<open>n\<close> low bytes of a word gives its \<open>8 * n\<close> low bits.\<close>

lemma le_word_le_bytes: "le_word (le_bytes n x) = take_bit (8 * n) x"
proof (induction n arbitrary: x)
  case 0
  show ?case by simp
next
  case (Suc n)
  show ?case by (simp add: Suc le_word_step)
qed

lemma le_bytes_take_bit:
  "8 * n \<le> k \<Longrightarrow> le_bytes n (take_bit k x) = le_bytes n (x :: 'a::len word)"
proof (induction n arbitrary: k x)
  case 0
  show ?case by simp
next
  case (Suc n)
  have low: "(ucast (take_bit k x) :: byte) = ucast x"
    using Suc.prems by (intro bit_word_eqI) (auto simp add: bit_simps)
  have high: "drop_bit 8 (take_bit k x) = take_bit (k - 8) (drop_bit 8 x)"
    using Suc.prems by (intro bit_word_eqI) (auto simp add: bit_simps)
  from Suc.prems have "8 * n \<le> k - 8" by simp
  then show ?case by (simp add: low high Suc.IH)
qed

text \<open>Conversely, a byte string that fits the word is recovered from the word it denotes.\<close>

lemma le_bytes_le_word:
  "length bs = n \<Longrightarrow> 8 * n \<le> LENGTH('a) \<Longrightarrow> le_bytes n (le_word bs :: 'a::len word) = bs"
proof (induction bs arbitrary: n)
  case Nil
  then show ?case by simp
next
  case (Cons b bs)
  then obtain m where n: "n = Suc m" and m: "length bs = m" "8 * m \<le> LENGTH('a)"
    by (cases n) auto
  let ?w = "le_word bs :: 'a word"
  from Cons.prems n have len: "8 \<le> LENGTH('a)" by simp
  have low: "ucast (ucast b OR push_bit 8 ?w) = b"
    using len by (intro bit_word_eqI) (auto simp add: bit_simps)
  have high: "drop_bit 8 (ucast b OR push_bit 8 ?w) = take_bit (LENGTH('a) - 8) ?w"
    using len by (intro bit_word_eqI) (auto simp add: bit_simps dest: bit_imp_le_length)
  from Cons.prems n have "8 * m \<le> LENGTH('a) - 8" by simp
  then have "le_bytes m (take_bit (LENGTH('a) - 8) ?w) = le_bytes m ?w"
    by (rule le_bytes_take_bit)
  also have "\<dots> = bs" using m by (rule Cons.IH)
  finally have "le_bytes m (take_bit (LENGTH('a) - 8) ?w) = bs" .
  then show ?case unfolding n le_word.simps le_bytes.simps low high by simp
qed

lemma extract_encode_ll: "extract_ll (encode_ll x @ rest) = x"
  by (simp add: extract_ll_def encode_ll_def length_le_bytes le_word_le_bytes
      take_bit_word_eq_self)

lemma extract_header_encode:
  "extract_header (encode_ushort p @ encode_ushort f @ encode_int l @ rest) = (p, f, l)"
  by (simp add: extract_header_def encode_ushort_def encode_int_def length_le_bytes
      le_word_le_bytes take_bit_word_eq_self)

text \<open>
  On either kind of host, \<open>swap_bytes_if_big_endian\<close> followed by a write of the object
  puts the little-endian encoding on the wire, and reading an object and swapping
  decodes it.
\<close>

lemma wire_ll:
  "object_bytes big_endian 8 (swap_bytes_if_big_endian_ll big_endian x) = encode_ll x"
  by (simp add: object_bytes_def swap_bytes_if_big_endian_ll_def encode_ll_def
      le_bytes_le_word length_le_bytes)

lemma wire_int:
  "object_bytes big_endian 4 (swap_bytes_if_big_endian_int big_endian x) = encode_int x"
  by (simp add: object_bytes_def swap_bytes_if_big_endian_int_def encode_int_def
      le_bytes_le_word length_le_bytes)

lemma unwire_ll:
  "swap_bytes_if_big_endian_ll big_endian (object_word big_endian (encode_ll x)) = x"
  by (simp add: object_word_def swap_bytes_if_big_endian_ll_def encode_ll_def
      le_bytes_le_word length_le_bytes le_word_le_bytes take_bit_word_eq_self)

lemma ucast_port: "(port :: 32 word) < 65536 \<Longrightarrow> ucast (ucast port :: 16 word) = port"
proof -
  assume "port < 65536"
  then have small: "port < 2 ^ 16" by simp
  have "ucast (ucast port :: 16 word) = take_bit 16 port"
    by (rule bit_word_eqI) (auto simp add: bit_simps)
  also have "\<dots> = port"
    using less_mask_eq [OF small] by (simp add: take_bit_eq_mask)
  finally show ?thesis .
qed

lemma ucast_length:
  "n < 2 ^ 32 \<Longrightarrow> unat (ucast (of_nat n :: 64 word) :: 32 word) = n"
  by (simp add: unsigned_ucast_eq unat_of_nat take_bit_nat_eq_self)

text \<open>
  What the masks of \<open>send_via_rti\<close> leave once the value is stored in an
  \<open>unsigned char\<close>: the low byte for \<open>0xff\<close>, nothing for the higher masks.
\<close>

lemma low_byte_mask: "(ucast ((x :: 'a::len word) AND 0xff) :: byte) = ucast x"
proof -
  have m: "(0xff :: 'a word) = mask 8" by (simp add: mask_eq_exp_minus_1)
  show ?thesis unfolding m
    by (intro bit_word_eqI) (auto simp add: bit_simps dest: bit_imp_le_length)
qed

lemma high_byte_mask_32: "(ucast ((x :: 32 word) AND 0xff00) :: byte) = 0"
proof -
  have m: "(0xff00 :: 32 word) = push_bit 8 (mask 8)"
    by (simp add: mask_eq_exp_minus_1 push_bit_eq_mult)
  show ?thesis unfolding m
    by (intro bit_word_eqI) (auto simp add: bit_simps)
qed

lemma high_byte_mask_64:
  "(ucast ((x :: 64 word) AND 0xff00) :: byte) = 0"
  "(ucast ((x :: 64 word) AND 0xff0000) :: byte) = 0"
  "(ucast ((x :: 64 word) AND 0xff000000) :: byte) = 0"
proof -
  have m1: "(0xff00 :: 64 word) = push_bit 8 (mask 8)"
    by (simp add: mask_eq_exp_minus_1 push_bit_eq_mult)
  show "(ucast (x AND 0xff00) :: byte) = 0" unfolding m1
    by (intro bit_word_eqI) (auto simp add: bit_simps)
  have m2: "(0xff0000 :: 64 word) = push_bit 16 (mask 8)"
    by (simp add: mask_eq_exp_minus_1 push_bit_eq_mult)
  show "(ucast (x AND 0xff0000) :: byte) = 0" unfolding m2
    by (intro bit_word_eqI) (auto simp add: bit_simps)
  have m3: "(0xff000000 :: 64 word) = push_bit 24 (mask 8)"
    by (simp add: mask_eq_exp_minus_1 push_bit_eq_mult)
  show "(ucast (x AND 0xff000000) :: byte) = 0" unfolding m3
    by (intro bit_word_eqI) (auto simp add: bit_simps)
qed

section \<open>Facts about the socket\<close>

lemma read_from_socket_prefix:
  "rti_in s = bs @ rest \<Longrightarrow> length bs = n \<Longrightarrow>
   read_from_socket n s = (Inr bs, s\<lparr>rti_in := rest\<rparr>)"
  by (simp add: read_from_socket_def)

lemma posix_write_ok:
  "rti_writable s \<Longrightarrow>
   posix_write bs s = (int (length bs), s\<lparr>rti_out := rti_out s @ bs\<rparr>)"
  by (simp add: posix_write_def)

section \<open>Properties of sending plain messages\<close>

text \<open>
  The header \<open>send_via_rti\<close> writes, for any admissible port and federate: the high
  byte of the port, the high byte of the federate and the three high bytes of the
  length are always zero.
\<close>

lemma send_via_rti_header:
  assumes "port < 65536" and "federate < 65536" and "rti_writable s"
  shows "send_via_rti h port federate message s
    = (Inr (), s\<lparr>rti_out := rti_out s
         @ [MESSAGE h, ucast port, 0, ucast federate, 0,
            ucast (of_nat (length message) :: 64 word), 0, 0, 0] @ message\<rparr>)"
  using assms
  by (simp add: send_via_rti_def write_to_socket_def low_byte_mask high_byte_mask_32
      high_byte_mask_64)

text \<open>
  So the header a receiver decodes from it holds only the low byte of the port, of the
  federate and of the length.
\<close>

lemma send_via_rti_decoded_header:
  assumes "port < 65536" and "federate < 65536" and "rti_writable s"
  shows "extract_header (drop (Suc (length (rti_out s)))
           (rti_out (snd (send_via_rti h port federate message s))))
    = (ucast (ucast port :: byte), ucast (ucast federate :: byte),
       ucast (ucast (of_nat (length message) :: 64 word) :: byte))"
  by (simp add: send_via_rti_header [OF assms] extract_header_def)

text \<open>
  C7: sending the plain message with port 3, federate 7 and payload 0x41, 0x42 writes
  exactly the eleven bytes MESSAGE, 3, 0, 7, 0, 2, 0, 0, 0, 0x41, 0x42; and a federate
  that has read the MESSAGE byte and handles the remaining ten bytes decodes the header
  as port 3, federate 7, length 2 and hands the payload 0x41, 0x42 for port 3 to the
  scheduler, leaving no byte unread.
\<close>

theorem plain_message_scenario:
  "rti_out (snd (send_via_rti h 3 7 [0x41, 0x42] (s\<lparr>rti_writable := True, rti_out := []\<rparr>)))
     = [MESSAGE h, 0x03, 0x00, 0x07, 0x00, 0x02, 0x00, 0x00, 0x00, 0x41, 0x42]
   \<and> fst (send_via_rti h 3 7 [0x41, 0x42] (s\<lparr>rti_writable := True, rti_out := []\<rparr>)) = Inr ()
   \<and> extract_header [0x03, 0x00, 0x07, 0x00, 0x02, 0x00, 0x00, 0x00] = (3, 7, 2)
   \<and> handle_message (r\<lparr>rti_in := [0x03, 0x00, 0x07, 0x00, 0x02, 0x00, 0x00, 0x00, 0x41, 0x42]\<rparr>)
     = (Inr (), r\<lparr>rti_in := [], calls := calls r @ [Schedule_value 3 0 [0x41, 0x42]]\<rparr>)"
  by (simp add: send_via_rti_def write_to_socket_def handle_message_def read_from_socket_def
      extract_header_def schedule_value_def)

text \<open>
  C1, the plain half at port 256: \<open>send_via_rti\<close> with port 256, federate 0 and an
  empty payload writes a header whose port bytes are both zero, the very bytes it writes
  for port 0, and the receiving federate schedules the message for port 0. The port is
  not recovered, so the round trip of a plain message fails for a port below 65536.
\<close>

theorem send_via_rti_loses_high_bytes:
  "rti_out (snd (send_via_rti h 256 0 [] (s\<lparr>rti_writable := True, rti_out := []\<rparr>)))
     = [MESSAGE h, 0, 0, 0, 0, 0, 0, 0, 0]
   \<and> send_via_rti h 256 0 [] (s\<lparr>rti_writable := True, rti_out := []\<rparr>)
     = send_via_rti h 0 0 [] (s\<lparr>rti_writable := True, rti_out := []\<rparr>)
   \<and> extract_header [0, 0, 0, 0, 0, 0, 0, 0] = (0, 0, 0)
   \<and> handle_message (r\<lparr>rti_in := [0, 0, 0, 0, 0, 0, 0, 0]\<rparr>)
     = (Inr (), r\<lparr>rti_in := [], calls := calls r @ [Schedule_value 0 0 []]\<rparr>)"
  by (simp add: send_via_rti_def write_to_socket_def handle_message_def read_from_socket_def
      extract_header_def schedule_value_def)

text \<open>
  C4: when the port or the federate is not below 65536, both send operations stop at
  an assertion and return the state as it was: nothing is written to the socket, the
  logical time is not read.
\<close>

theorem send_rejects_invalid_address:
  assumes "\<not> (port < 65536 \<and> federate < 65536)"
  shows "(\<exists>a. send_via_rti h port federate message s = (Inl (Assertion a), s))
       \<and> (\<exists>a. send_via_rti_timed h port federate message s = (Inl (Assertion a), s))"
proof (cases "port < 65536")
  case True
  with assms have "\<not> federate < 65536" by simp
  with True show ?thesis by (simp add: send_via_rti_def send_via_rti_timed_def)
next
  case False
  then show ?thesis by (simp add: send_via_rti_def send_via_rti_timed_def)
qed

theorem send_rejects_invalid_address_witness:
  "\<not> ((65536 :: 32 word) < 65536 \<and> (7 :: 32 word) < 65536)
   \<and> send_via_rti \<lparr>FED_ID = 1, TIMESTAMP = 2, MESSAGE = 3, TIMED_MESSAGE = 4,
        CONNECT_NUM_RETRIES = 5, CONNECT_RETRY_INTERVAL = 2\<rparr> 65536 7 [0x41]
        \<lparr>rti_in = [], rti_out = [], rti_writable = True, current_time = 0, calls = []\<rparr>
     = (Inl (Assertion ''port < 65536''),
        \<lparr>rti_in = [], rti_out = [], rti_writable = True, current_time = 0, calls = []\<rparr>)
   \<and> send_via_rti_timed \<lparr>FED_ID = 1, TIMESTAMP = 2, MESSAGE = 3, TIMED_MESSAGE = 4,
        CONNECT_NUM_RETRIES = 5, CONNECT_RETRY_INTERVAL = 2\<rparr> 65536 7 [0x41]
        \<lparr>rti_in = [], rti_out = [], rti_writable = True, current_time = 0, calls = []\<rparr>
     = (Inl (Assertion ''port < 65536''),
        \<lparr>rti_in = [], rti_out = [], rti_writable = True, current_time = 0, calls = []\<rparr>)"
  using send_rejects_invalid_address [of 65536 7
      "\<lparr>FED_ID = 1, TIMESTAMP = 2, MESSAGE = 3, TIMED_MESSAGE = 4,
        CONNECT_NUM_RETRIES = 5, CONNECT_RETRY_INTERVAL = 2\<rparr>" "[0x41]"
      "\<lparr>rti_in = [], rti_out = [], rti_writable = True, current_time = 0, calls = []\<rparr>"]
  by (simp add: send_via_rti_def send_via_rti_timed_def)

section \<open>Properties of sending timed messages\<close>

text \<open>
  C9: \<open>send_via_rti_timed\<close> takes port, federate and message only. It reads the logical
  time once and writes the seventeen byte header followed by the message; the eight
  bytes at offset 9 of what it writes decode to the logical time of the federate at the
  call.
\<close>

theorem send_via_rti_timed_timestamp:
  assumes "port < 65536" and "federate < 65536" and "rti_writable s"
  shows "send_via_rti_timed h port federate message s
    = (Inr (), s\<lparr>calls := calls s @ [Get_logical_time (current_time s)],
         rti_out := rti_out s @ [TIMED_MESSAGE h] @ encode_ushort (ucast port)
           @ encode_ushort (ucast federate) @ encode_int (ucast (of_nat (length message) :: 64 word))
           @ encode_ll (current_time s) @ message\<rparr>)
   \<and> extract_ll (drop 9 (drop (length (rti_out s))
         (rti_out (snd (send_via_rti_timed h port federate message s))))) = current_time s"
proof -
  have eq: "send_via_rti_timed h port federate message s
    = (Inr (), s\<lparr>calls := calls s @ [Get_logical_time (current_time s)],
         rti_out := rti_out s @ [TIMED_MESSAGE h] @ encode_ushort (ucast port)
           @ encode_ushort (ucast federate) @ encode_int (ucast (of_nat (length message) :: 64 word))
           @ encode_ll (current_time s) @ message\<rparr>)"
    using assms
    by (simp add: send_via_rti_timed_def get_logical_time_def write_to_socket_def)
  have "extract_ll (drop 9 (drop (length (rti_out s))
         (rti_out (snd (send_via_rti_timed h port federate message s))))) = current_time s"
    by (simp add: eq extract_encode_ll encode_ushort_def encode_int_def length_le_bytes)
  with eq show ?thesis by simp
qed

theorem send_via_rti_timed_timestamp_witness:
  "send_via_rti_timed \<lparr>FED_ID = 1, TIMESTAMP = 2, MESSAGE = 3, TIMED_MESSAGE = 4,
        CONNECT_NUM_RETRIES = 5, CONNECT_RETRY_INTERVAL = 2\<rparr> 3 7 [0x41, 0x42]
        \<lparr>rti_in = [], rti_out = [], rti_writable = True, current_time = 150, calls = []\<rparr>
     = (Inr (),
        \<lparr>rti_in = [], rti_out = [4, 3, 0, 7, 0, 2, 0, 0, 0, 150, 0, 0, 0, 0, 0, 0, 0, 0x41, 0x42],
         rti_writable = True, current_time = 150, calls = [Get_logical_time 150]\<rparr>)
   \<and> extract_ll [150, 0, 0, 0, 0, 0, 0, 0, 0x41, 0x42] = 150"
  using send_via_rti_timed_timestamp [of 3 7
      "\<lparr>rti_in = [], rti_out = [], rti_writable = True, current_time = 150, calls = []\<rparr>"
      "\<lparr>FED_ID = 1, TIMESTAMP = 2, MESSAGE = 3, TIMED_MESSAGE = 4,
        CONNECT_NUM_RETRIES = 5, CONNECT_RETRY_INTERVAL = 2\<rparr>" "[0x41, 0x42]"]
  by (simp add: encode_ushort_def encode_int_def encode_ll_def le_bytes_numeral extract_ll_def)

section \<open>Properties of connecting\<close>

lemma connect_loop_all_fail:
  "nat (CONNECT_NUM_RETRIES h - count_retries) = n \<Longrightarrow>
   count_retries \<le> CONNECT_NUM_RETRIES h \<Longrightarrow>
   connect_loop h (\<lambda>k. Connect_fails (interrupted k)) k count_retries s
     = (Inl (Exit 2),
        s\<lparr>calls := calls s
           @ concat (map (\<lambda>j. [Connect, Nanosleep (CONNECT_RETRY_INTERVAL h) (interrupted j)])
               [k ..< k + n])
           @ [Connect]\<rparr>)"
proof (induction n arbitrary: k count_retries s)
  case 0
  then have "count_retries = CONNECT_NUM_RETRIES h" by simp
  then show ?case
    by (subst connect_loop.simps) simp
next
  case (Suc n)
  then have lt: "count_retries < CONNECT_NUM_RETRIES h" by simp
  let ?s2 = "s\<lparr>calls := calls s @ [Connect, Nanosleep (CONNECT_RETRY_INTERVAL h) (interrupted k)]\<rparr>"
  have step: "connect_loop h (\<lambda>k. Connect_fails (interrupted k)) k count_retries s
      = connect_loop h (\<lambda>k. Connect_fails (interrupted k)) (Suc k) (count_retries + 1) ?s2"
    using lt by (subst connect_loop.simps) simp
  have "nat (CONNECT_NUM_RETRIES h - (count_retries + 1)) = n"
    using Suc.prems by simp
  moreover have "count_retries + 1 \<le> CONNECT_NUM_RETRIES h"
    using lt by simp
  ultimately have "connect_loop h (\<lambda>k. Connect_fails (interrupted k)) (Suc k) (count_retries + 1) ?s2
      = (Inl (Exit 2),
         ?s2\<lparr>calls := calls ?s2
           @ concat (map (\<lambda>j. [Connect, Nanosleep (CONNECT_RETRY_INTERVAL h) (interrupted j)])
               [Suc k ..< Suc k + n])
           @ [Connect]\<rparr>)"
    by (rule Suc.IH)
  moreover have "[k ..< k + Suc n] = k # [Suc k ..< Suc k + n]"
    using upt_conv_Cons [of k "k + Suc n"] by (simp del: upt_Suc)
  ultimately show ?case
    by (simp add: step del: upt_Suc)
qed

text \<open>
  When the first attempt succeeds, \<open>connect_to_rti\<close> registers the federate: it writes
  the byte FED_ID and the four bytes of the identifier, least significant first.
\<close>

lemma connect_to_rti_registers:
  assumes "net 0 = Connect_ok" and "rti_writable s"
  shows "connect_to_rti h big_endian net federate_id s
    = (Inr (), s\<lparr>calls := calls s @ [Connect],
         rti_out := rti_out s @ FED_ID h # encode_int federate_id\<rparr>)"
proof -
  have loop: "connect_loop h net 0 0 s = (Inr (), s\<lparr>calls := calls s @ [Connect]\<rparr>)"
    using assms(1) by (subst connect_loop.simps) simp
  show ?thesis
    using assms(2)
    by (simp add: connect_to_rti_def loop posix_write_def wire_int encode_int_def
        length_le_bytes)
qed

lemma count_list_retries:
  "count_list (concat (map (\<lambda>j. [Connect, Nanosleep i (interrupted j)]) ks)) Connect = length ks"
  by (induction ks) simp_all

text \<open>
  C3: when every \<open>connect\<close> fails, whatever sleeps are interrupted, \<open>connect_to_rti\<close>
  ends with \<open>exit(2)\<close> after the calls connect, sleep, connect, sleep, ..., connect:
  \<open>CONNECT_NUM_RETRIES\<close> pairs of a failed attempt and a sleep of
  \<open>CONNECT_RETRY_INTERVAL\<close> seconds, then one last attempt. So there are
  \<open>CONNECT_NUM_RETRIES\<close> attempts after the first, one sleep between two consecutive
  attempts, and an interrupted sleep is followed by the next attempt like any other.
  The constant is taken non-negative and below \<open>INT_MAX\<close>, where \<open>count_retries\<close>
  cannot overflow.
\<close>

theorem connect_retry_bound:
  assumes "0 \<le> CONNECT_NUM_RETRIES h" and "CONNECT_NUM_RETRIES h < 2 ^ 31 - 1"
  shows "connect_to_rti h big_endian (\<lambda>k. Connect_fails (interrupted k)) federate_id s
     = (Inl (Exit 2),
        s\<lparr>calls := calls s
           @ concat (map (\<lambda>j. [Connect, Nanosleep (CONNECT_RETRY_INTERVAL h) (interrupted j)])
               [0 ..< nat (CONNECT_NUM_RETRIES h)])
           @ [Connect]\<rparr>)
   \<and> count_list (calls (snd (connect_to_rti h big_endian (\<lambda>k. Connect_fails (interrupted k))
          federate_id s))) Connect
     = count_list (calls s) Connect + 1 + nat (CONNECT_NUM_RETRIES h)"
proof -
  have loop: "connect_loop h (\<lambda>k. Connect_fails (interrupted k)) 0 0 s
     = (Inl (Exit 2),
        s\<lparr>calls := calls s
           @ concat (map (\<lambda>j. [Connect, Nanosleep (CONNECT_RETRY_INTERVAL h) (interrupted j)])
               [0 ..< 0 + nat (CONNECT_NUM_RETRIES h)])
           @ [Connect]\<rparr>)"
    using assms(1) by (intro connect_loop_all_fail) simp_all
  then have eq: "connect_to_rti h big_endian (\<lambda>k. Connect_fails (interrupted k)) federate_id s
     = (Inl (Exit 2),
        s\<lparr>calls := calls s
           @ concat (map (\<lambda>j. [Connect, Nanosleep (CONNECT_RETRY_INTERVAL h) (interrupted j)])
               [0 ..< nat (CONNECT_NUM_RETRIES h)])
           @ [Connect]\<rparr>)"
    by (simp add: connect_to_rti_def)
  show ?thesis
    by (simp add: eq count_list_retries)
qed

theorem connect_retry_bound_witness:
  "connect_to_rti \<lparr>FED_ID = 1, TIMESTAMP = 2, MESSAGE = 3, TIMED_MESSAGE = 4,
        CONNECT_NUM_RETRIES = 2, CONNECT_RETRY_INTERVAL = 2\<rparr> False
        (\<lambda>k. Connect_fails (k = 1)) 42
        \<lparr>rti_in = [], rti_out = [], rti_writable = True, current_time = 0, calls = []\<rparr>
   = (Inl (Exit 2),
      \<lparr>rti_in = [], rti_out = [], rti_writable = True, current_time = 0,
       calls = [Connect, Nanosleep 2 False, Connect, Nanosleep 2 True, Connect]\<rparr>)"
  using connect_retry_bound [of
      "\<lparr>FED_ID = 1, TIMESTAMP = 2, MESSAGE = 3, TIMED_MESSAGE = 4,
        CONNECT_NUM_RETRIES = 2, CONNECT_RETRY_INTERVAL = 2\<rparr>" False "\<lambda>k. k = 1" 42
      "\<lparr>rti_in = [], rti_out = [], rti_writable = True, current_time = 0, calls = []\<rparr>"]
  by (simp add: upt_conv_Cons)

section \<open>Properties of the start time handshake\<close>

lemma get_start_time_calls:
  "calls (snd (get_start_time_from_rti h big_endian t s)) = calls s"
  by (simp add: get_start_time_from_rti_def posix_write_def read_from_socket_def Let_def
      split: prod.split sum.split)

text \<open>
  C5: on a writable socket on which the RTI answers with the byte TIMESTAMP and the
  eight bytes of a start time, \<open>get_start_time_from_rti\<close> writes the byte TIMESTAMP and
  the eight bytes of \<open>my_physical_time\<close>, reads exactly the nine bytes of the reply and
  returns the start time of the reply. With physical time 1000 and a reply carrying
  1200 it returns 1200.
\<close>

theorem negotiate_start_time:
  assumes "rti_writable s" and "rti_in s = TIMESTAMP h # encode_ll start_time @ rest"
  shows "get_start_time_from_rti h big_endian my_physical_time s
    = (Inr start_time,
       s\<lparr>rti_out := rti_out s @ TIMESTAMP h # encode_ll my_physical_time, rti_in := rest\<rparr>)"
proof -
  have len: "length (encode_ll start_time) = 8"
    by (simp add: encode_ll_def length_le_bytes)
  let ?s1 = "s\<lparr>rti_out := rti_out s @ [TIMESTAMP h]\<rparr>"
  let ?s2 = "s\<lparr>rti_out := rti_out s @ TIMESTAMP h # encode_ll my_physical_time\<rparr>"
  have wr1: "posix_write [TIMESTAMP h] s = (1, ?s1)"
    using posix_write_ok [OF assms(1), of "[TIMESTAMP h]"] by simp
  have wr2: "posix_write (encode_ll my_physical_time) ?s1 = (8, ?s2)"
    using assms(1) by (simp add: posix_write_def encode_ll_def length_le_bytes)
  have rd: "read_from_socket 9 ?s2
    = (Inr (TIMESTAMP h # encode_ll start_time), ?s2\<lparr>rti_in := rest\<rparr>)"
    using assms(2) len by (intro read_from_socket_prefix) simp_all
  show ?thesis
    by (simp add: get_start_time_from_rti_def wr1 wire_ll wr2 rd len unwire_ll)
qed

theorem negotiate_start_time_witness:
  "get_start_time_from_rti
     \<lparr>FED_ID = 1, TIMESTAMP = 2, MESSAGE = 3, TIMED_MESSAGE = 4,
      CONNECT_NUM_RETRIES = 5, CONNECT_RETRY_INTERVAL = 2\<rparr> False 1000
     \<lparr>rti_in = [2, 0xb0, 0x04, 0, 0, 0, 0, 0, 0], rti_out = [], rti_writable = True,
      current_time = 0, calls = []\<rparr>
   = (Inr 1200,
      \<lparr>rti_in = [], rti_out = [2, 0xe8, 0x03, 0, 0, 0, 0, 0, 0], rti_writable = True,
       current_time = 0, calls = []\<rparr>)"
  using negotiate_start_time [of
      "\<lparr>rti_in = [2, 0xb0, 0x04, 0, 0, 0, 0, 0, 0], rti_out = [], rti_writable = True,
        current_time = 0, calls = []\<rparr>"
      "\<lparr>FED_ID = 1, TIMESTAMP = 2, MESSAGE = 3, TIMED_MESSAGE = 4,
        CONNECT_NUM_RETRIES = 5, CONNECT_RETRY_INTERVAL = 2\<rparr>"
      1200 "[]" False 1000]
  by (simp add: encode_ll_def le_bytes_numeral)

section \<open>Properties of receiving\<close>

lemma listen_to_rti_plain:
  "handle_message s = (Inr (), s') \<Longrightarrow>
   listen_to_rti h (s\<lparr>rti_in := MESSAGE h # rti_in s\<rparr>) = listen_to_rti h s'"
  by (subst listen_to_rti.simps) (simp add: read_from_socket_def)

lemma listen_to_rti_timed:
  "handle_timed_message s = (Inr (), s') \<Longrightarrow> TIMED_MESSAGE h \<noteq> MESSAGE h \<Longrightarrow>
   listen_to_rti h (s\<lparr>rti_in := TIMED_MESSAGE h # rti_in s\<rparr>) = listen_to_rti h s'"
  by (subst listen_to_rti.simps) (simp add: read_from_socket_def)

lemma listen_to_rti_end:
  "rti_in s = [] \<Longrightarrow> listen_to_rti h s = (Socket_failure, s)"
  by (subst listen_to_rti.simps) (simp add: read_from_socket_def)

text \<open>
  C8: when the stream holds an eight byte header and the payload the header announces,
  \<open>handle_message\<close> consumes both and calls the scheduler once, for the port decoded
  from the header, with delay 0 and the payload. A listener that meets the byte MESSAGE
  in front of them makes this delivery and goes on with the rest of the stream.
\<close>

theorem handle_message_zero_delay:
  assumes "rti_in s = header @ payload @ rest" and "length header = 8"
    and "extract_header header = (port_id, federate_id, len)"
    and "length payload = unat len"
  shows "handle_message s
    = (Inr (), s\<lparr>rti_in := rest, calls := calls s @ [Schedule_value port_id 0 payload]\<rparr>)
   \<and> listen_to_rti h (s\<lparr>rti_in := MESSAGE h # rti_in s\<rparr>)
    = listen_to_rti h (s\<lparr>rti_in := rest, calls := calls s @ [Schedule_value port_id 0 payload]\<rparr>)"
proof -
  have rd1: "read_from_socket 8 s = (Inr header, s\<lparr>rti_in := payload @ rest\<rparr>)"
    using assms(1,2) by (rule read_from_socket_prefix)
  have rd2: "read_from_socket (unat len) (s\<lparr>rti_in := payload @ rest\<rparr>)
    = (Inr payload, s\<lparr>rti_in := payload @ rest\<rparr>\<lparr>rti_in := rest\<rparr>)"
    using assms(4) by (intro read_from_socket_prefix) simp_all
  have handled: "handle_message s
    = (Inr (), s\<lparr>rti_in := rest, calls := calls s @ [Schedule_value port_id 0 payload]\<rparr>)"
    by (simp add: handle_message_def rd1 assms(3) rd2 schedule_value_def)
  then show ?thesis
    by (simp add: listen_to_rti_plain)
qed

theorem handle_message_zero_delay_witness:
  "handle_message
     \<lparr>rti_in = [0x2c, 0x01, 7, 0, 3, 0, 0, 0] @ [1, 2, 3] @ [],
      rti_out = [], rti_writable = False, current_time = 100, calls = []\<rparr>
   = (Inr (),
      \<lparr>rti_in = [], rti_out = [], rti_writable = False, current_time = 100,
       calls = [Schedule_value 300 0 [1, 2, 3]]\<rparr>)
   \<and> listen_to_rti \<lparr>FED_ID = 1, TIMESTAMP = 2, MESSAGE = 3, TIMED_MESSAGE = 4,
        CONNECT_NUM_RETRIES = 5, CONNECT_RETRY_INTERVAL = 2\<rparr>
     \<lparr>rti_in = [3, 0x2c, 0x01, 7, 0, 3, 0, 0, 0, 1, 2, 3],
      rti_out = [], rti_writable = False, current_time = 100, calls = []\<rparr>
   = (Socket_failure,
      \<lparr>rti_in = [], rti_out = [], rti_writable = False, current_time = 100,
       calls = [Schedule_value 300 0 [1, 2, 3]]\<rparr>)"
  using handle_message_zero_delay [of
      "\<lparr>rti_in = [0x2c, 0x01, 7, 0, 3, 0, 0, 0] @ [1, 2, 3] @ [],
        rti_out = [], rti_writable = False, current_time = 100, calls = []\<rparr>"
      "[0x2c, 0x01, 7, 0, 3, 0, 0, 0]" "[1, 2, 3]" "[]" 300 7 3
      "\<lparr>FED_ID = 1, TIMESTAMP = 2, MESSAGE = 3, TIMED_MESSAGE = 4,
        CONNECT_NUM_RETRIES = 5, CONNECT_RETRY_INTERVAL = 2\<rparr>"]
  by (simp add: extract_header_def listen_to_rti_end)

text \<open>
  The delay is a difference of two \<open>long long\<close> values. Where it does not overflow it
  is the difference of the two times as integers.
\<close>

lemma delay_as_integer:
  fixes timestamp now :: "64 word"
  assumes "- (2 ^ 63) \<le> sint timestamp - sint now" and "sint timestamp - sint now < 2 ^ 63"
  shows "sint (timestamp - now) = sint timestamp - sint now"
  using assms by (simp add: sint_word_ariths signed_take_bit_int_eq_self)

text \<open>
  C2: when the stream holds a header, the eight bytes of a timestamp and the payload
  the header announces, \<open>handle_timed_message\<close> locks the mutex, reads the logical time,
  calls the scheduler with the delay timestamp minus that logical time, and unlocks the
  mutex, in this order. A listener that meets the byte TIMED_MESSAGE in front of them
  makes this delivery and goes on with the rest of the stream. With logical time 100
  and timestamp 150 the delay is 50.
\<close>

theorem handle_timed_message_delay:
  assumes "rti_in s = header @ stamp @ payload @ rest"
    and "length header = 8" and "length stamp = 8"
    and "extract_header header = (port_id, federate_id, len)"
    and "length payload = unat len"
  shows "handle_timed_message s
    = (Inr (), s\<lparr>rti_in := rest,
         calls := calls s @ [Mutex_lock, Get_logical_time (current_time s),
           Schedule_value port_id (extract_ll stamp - current_time s) payload, Mutex_unlock]\<rparr>)
   \<and> (TIMED_MESSAGE h \<noteq> MESSAGE h \<longrightarrow>
        listen_to_rti h (s\<lparr>rti_in := TIMED_MESSAGE h # rti_in s\<rparr>)
        = listen_to_rti h (s\<lparr>rti_in := rest,
            calls := calls s @ [Mutex_lock, Get_logical_time (current_time s),
              Schedule_value port_id (extract_ll stamp - current_time s) payload, Mutex_unlock]\<rparr>))"
proof -
  have rd1: "read_from_socket 8 s = (Inr header, s\<lparr>rti_in := stamp @ payload @ rest\<rparr>)"
    using assms(1,2) by (rule read_from_socket_prefix)
  have rd2: "read_from_socket 8 (s\<lparr>rti_in := stamp @ payload @ rest\<rparr>)
    = (Inr stamp, s\<lparr>rti_in := stamp @ payload @ rest\<rparr>\<lparr>rti_in := payload @ rest\<rparr>)"
    using assms(3) by (intro read_from_socket_prefix) simp_all
  have rd3: "read_from_socket (unat len) (s\<lparr>rti_in := payload @ rest\<rparr>)
    = (Inr payload, s\<lparr>rti_in := payload @ rest\<rparr>\<lparr>rti_in := rest\<rparr>)"
    using assms(5) by (intro read_from_socket_prefix) simp_all
  from rd2 have rd2': "read_from_socket 8 (s\<lparr>rti_in := stamp @ payload @ rest\<rparr>)
    = (Inr stamp, s\<lparr>rti_in := payload @ rest\<rparr>)" by simp
  have handled: "handle_timed_message s
    = (Inr (), s\<lparr>rti_in := rest,
         calls := calls s @ [Mutex_lock, Get_logical_time (current_time s),
           Schedule_value port_id (extract_ll stamp - current_time s) payload, Mutex_unlock]\<rparr>)"
    by (simp add: handle_timed_message_def rd1 assms(4) rd2' rd3 pthread_mutex_lock_def
        get_logical_time_def schedule_value_def pthread_mutex_unlock_def)
  then show ?thesis
    by (simp add: listen_to_rti_timed)
qed

theorem handle_timed_message_delay_witness:
  "handle_timed_message
     \<lparr>rti_in = [3, 0, 7, 0, 2, 0, 0, 0] @ [150, 0, 0, 0, 0, 0, 0, 0] @ [0x41, 0x42] @ [],
      rti_out = [], rti_writable = True, current_time = 100, calls = []\<rparr>
   = (Inr (),
      \<lparr>rti_in = [], rti_out = [], rti_writable = True, current_time = 100,
       calls = [Mutex_lock, Get_logical_time 100, Schedule_value 3 50 [0x41, 0x42], Mutex_unlock]\<rparr>)
   \<and> listen_to_rti \<lparr>FED_ID = 1, TIMESTAMP = 2, MESSAGE = 3, TIMED_MESSAGE = 4,
        CONNECT_NUM_RETRIES = 5, CONNECT_RETRY_INTERVAL = 2\<rparr>
     \<lparr>rti_in = [4, 3, 0, 7, 0, 2, 0, 0, 0, 150, 0, 0, 0, 0, 0, 0, 0, 0x41, 0x42],
      rti_out = [], rti_writable = True, current_time = 100, calls = []\<rparr>
   = (Socket_failure,
      \<lparr>rti_in = [], rti_out = [], rti_writable = True, current_time = 100,
       calls = [Mutex_lock, Get_logical_time 100, Schedule_value 3 50 [0x41, 0x42], Mutex_unlock]\<rparr>)"
  using handle_timed_message_delay [of
      "\<lparr>rti_in = [3, 0, 7, 0, 2, 0, 0, 0] @ [150, 0, 0, 0, 0, 0, 0, 0] @ [0x41, 0x42] @ [],
        rti_out = [], rti_writable = True, current_time = 100, calls = []\<rparr>"
      "[3, 0, 7, 0, 2, 0, 0, 0]" "[150, 0, 0, 0, 0, 0, 0, 0]" "[0x41, 0x42]" "[]" 3 7 2
      "\<lparr>FED_ID = 1, TIMESTAMP = 2, MESSAGE = 3, TIMED_MESSAGE = 4,
        CONNECT_NUM_RETRIES = 5, CONNECT_RETRY_INTERVAL = 2\<rparr>"]
  by (simp add: extract_header_def extract_ll_def listen_to_rti_end)

lemma deliveries_append: "deliveries cs \<Longrightarrow> deliveries ds \<Longrightarrow> deliveries (cs @ ds)"
  by (induction cs rule: deliveries.induct) simp_all

lemma read_from_socket_calls: "read_from_socket n s = (r, s') \<Longrightarrow> calls s' = calls s"
  by (auto simp add: read_from_socket_def split: if_splits)

lemma handle_message_calls:
  "handle_message s = (r, s') \<Longrightarrow> \<exists>cs. calls s' = calls s @ cs \<and> deliveries cs"
  by (auto simp add: handle_message_def read_from_socket_def schedule_value_def
      split: prod.splits sum.splits if_splits)

lemma handle_timed_message_calls:
  "handle_timed_message s = (r, s') \<Longrightarrow> \<exists>cs. calls s' = calls s @ cs \<and> deliveries cs"
  by (auto simp add: handle_timed_message_def read_from_socket_def schedule_value_def
      pthread_mutex_lock_def pthread_mutex_unlock_def get_logical_time_def
      split: prod.splits sum.splits if_splits)

text \<open>
  Whatever the stream holds, the calls a listener makes until it stops are a sequence
  of deliveries: by induction along the loop.
\<close>

lemma listen_to_rti_calls:
  "\<exists>cs. calls (snd (listen_to_rti h s)) = calls s @ cs \<and> deliveries cs"
proof (induction h s rule: listen_to_rti.induct)
  case (1 h s)
  obtain r1 s1 where rd: "read_from_socket 1 s = (r1, s1)" by (cases "read_from_socket 1 s")
  then have c1: "calls s1 = calls s" by (rule read_from_socket_calls)
  show ?case
  proof (cases r1)
    case (Inl e)
    with rd c1 show ?thesis by (subst listen_to_rti.simps) simp
  next
    case (Inr buffer)
    consider (plain) "buffer ! 0 = MESSAGE h"
      | (timed) "buffer ! 0 \<noteq> MESSAGE h" "buffer ! 0 = TIMED_MESSAGE h"
      | (other) "buffer ! 0 \<noteq> MESSAGE h" "buffer ! 0 \<noteq> TIMED_MESSAGE h"
      by blast
    then show ?thesis
    proof cases
      case plain
      obtain r2 s2 where hm: "handle_message s1 = (r2, s2)" by (cases "handle_message s1")
      then obtain cs where cs: "calls s2 = calls s @ cs" "deliveries cs"
        using handle_message_calls c1 by metis
      show ?thesis
      proof (cases r2)
        case (Inl e)
        with rd Inr plain hm cs show ?thesis by (subst listen_to_rti.simps) simp
      next
        case r2: (Inr u)
        from "1.IH"(1) [OF rd [symmetric] Inr plain hm [symmetric] r2]
        obtain ds where "calls (snd (listen_to_rti h s2)) = calls s2 @ ds" "deliveries ds"
          by blast
        with cs have "calls (snd (listen_to_rti h s2)) = calls s @ (cs @ ds)"
          "deliveries (cs @ ds)" by (simp_all add: deliveries_append)
        moreover have "listen_to_rti h s = listen_to_rti h s2"
          using rd Inr plain hm r2 by (subst listen_to_rti.simps) simp
        ultimately show ?thesis by metis
      qed
    next
      case timed
      obtain r2 s2 where hm: "handle_timed_message s1 = (r2, s2)"
        by (cases "handle_timed_message s1")
      then obtain cs where cs: "calls s2 = calls s @ cs" "deliveries cs"
        using handle_timed_message_calls c1 by metis
      show ?thesis
      proof (cases r2)
        case (Inl e)
        with rd Inr timed hm cs show ?thesis by (subst listen_to_rti.simps) simp
      next
        case r2: (Inr u)
        from "1.IH"(2) [OF rd [symmetric] Inr timed hm [symmetric] r2]
        obtain ds where "calls (snd (listen_to_rti h s2)) = calls s2 @ ds" "deliveries ds"
          by blast
        with cs have "calls (snd (listen_to_rti h s2)) = calls s @ (cs @ ds)"
          "deliveries (cs @ ds)" by (simp_all add: deliveries_append)
        moreover have "listen_to_rti h s = listen_to_rti h s2"
          using rd Inr timed hm r2 by (subst listen_to_rti.simps) simp
        ultimately show ?thesis by metis
      qed
    next
      case other
      with rd Inr c1 show ?thesis by (subst listen_to_rti.simps) simp
    qed
  qed
qed

text \<open>
  C10: whatever the stream holds, \<open>handle_message\<close> makes no call but at most one
  \<open>schedule_value\<close> with delay 0: it never locks or unlocks the mutex.
  \<open>handle_timed_message\<close> makes no call when a read fails, and otherwise exactly the
  calls lock, get logical time, schedule, unlock: the mutex is taken only there, around
  the read of the clock and the scheduling of a timed message. So all the calls of a
  listener form a sequence of deliveries, in which every \<open>schedule_value\<close> outside a
  lock has delay 0 and every lock is released right after one \<open>schedule_value\<close>.
\<close>

theorem mutex_only_on_timed_path:
  "(case handle_message s of
      (Inl e, s') \<Rightarrow> calls s' = calls s
    | (Inr u, s') \<Rightarrow> \<exists>port_id payload. calls s' = calls s @ [Schedule_value port_id 0 payload])
   \<and> (case handle_timed_message s of
      (Inl e, s') \<Rightarrow> calls s' = calls s
    | (Inr u, s') \<Rightarrow> \<exists>port_id delay payload.
        calls s' = calls s @ [Mutex_lock, Get_logical_time (current_time s),
                              Schedule_value port_id delay payload, Mutex_unlock])
   \<and> (\<exists>cs. calls (snd (listen_to_rti h s)) = calls s @ cs \<and> deliveries cs)"
proof (intro conjI)
  show "case handle_message s of
      (Inl e, s') \<Rightarrow> calls s' = calls s
    | (Inr u, s') \<Rightarrow> \<exists>port_id payload. calls s' = calls s @ [Schedule_value port_id 0 payload]"
    by (simp add: handle_message_def read_from_socket_def schedule_value_def
        split: prod.split sum.split)
next
  show "case handle_timed_message s of
      (Inl e, s') \<Rightarrow> calls s' = calls s
    | (Inr u, s') \<Rightarrow> \<exists>port_id delay payload.
        calls s' = calls s @ [Mutex_lock, Get_logical_time (current_time s),
                              Schedule_value port_id delay payload, Mutex_unlock]"
    by (simp add: handle_timed_message_def read_from_socket_def schedule_value_def
        pthread_mutex_lock_def pthread_mutex_unlock_def get_logical_time_def
        split: prod.split sum.split)
next
  show "\<exists>cs. calls (snd (listen_to_rti h s)) = calls s @ cs \<and> deliveries cs"
    by (rule listen_to_rti_calls)
qed

text \<open>
  C6: a first byte other than MESSAGE and TIMED_MESSAGE ends \<open>listen_to_rti\<close> at once
  with \<open>error(ERROR_UNRECOGNIZED_MESSAGE_TYPE)\<close>: no call is made and the bytes after it
  stay unread. A reply to the handshake whose first byte is not TIMESTAMP never yields a
  start time and makes no call; when the writes succeed and nine bytes arrive, the
  handshake ends with \<open>exit(1)\<close>.
\<close>

theorem unexpected_tag_is_fatal:
  assumes "rti_in s = tag # rest"
  shows "(tag \<noteq> MESSAGE h \<and> tag \<noteq> TIMED_MESSAGE h \<longrightarrow>
            listen_to_rti h s = (Error ERROR_UNRECOGNIZED_MESSAGE_TYPE, s\<lparr>rti_in := rest\<rparr>))
       \<and> (tag \<noteq> TIMESTAMP h \<longrightarrow>
            (\<exists>e. fst (get_start_time_from_rti h big_endian t s) = Inl e)
            \<and> calls (snd (get_start_time_from_rti h big_endian t s)) = calls s)
       \<and> (tag \<noteq> TIMESTAMP h \<and> rti_writable s \<and> 8 \<le> length rest \<longrightarrow>
            get_start_time_from_rti h big_endian t s
              = (Inl (Exit 1), s\<lparr>rti_out := rti_out s @ TIMESTAMP h # encode_ll t,
                                 rti_in := drop 8 rest\<rparr>))"
proof (intro conjI impI)
  assume "tag \<noteq> MESSAGE h \<and> tag \<noteq> TIMED_MESSAGE h"
  moreover have "read_from_socket 1 s = (Inr [tag], s\<lparr>rti_in := rest\<rparr>)"
    using assms by (simp add: read_from_socket_def)
  ultimately show "listen_to_rti h s
      = (Error ERROR_UNRECOGNIZED_MESSAGE_TYPE, s\<lparr>rti_in := rest\<rparr>)"
    by (subst listen_to_rti.simps) simp
next
  assume "tag \<noteq> TIMESTAMP h"
  then show "\<exists>e. fst (get_start_time_from_rti h big_endian t s) = Inl e"
    using assms
    by (auto simp add: get_start_time_from_rti_def posix_write_def read_from_socket_def Let_def
        split: prod.split sum.split)
next
  show "calls (snd (get_start_time_from_rti h big_endian t s)) = calls s"
    by (rule get_start_time_calls)
next
  assume a: "tag \<noteq> TIMESTAMP h \<and> rti_writable s \<and> 8 \<le> length rest"
  let ?s1 = "s\<lparr>rti_out := rti_out s @ [TIMESTAMP h]\<rparr>"
  let ?s2 = "s\<lparr>rti_out := rti_out s @ TIMESTAMP h # encode_ll t\<rparr>"
  have wr1: "posix_write [TIMESTAMP h] s = (1, ?s1)"
    using a by (simp add: posix_write_def)
  have wr2: "posix_write (encode_ll t) ?s1 = (8, ?s2)"
    using a by (simp add: posix_write_def encode_ll_def length_le_bytes)
  have rd: "read_from_socket 9 ?s2 = (Inr (tag # take 8 rest), ?s2\<lparr>rti_in := drop 8 rest\<rparr>)"
    using a assms by (simp add: read_from_socket_def)
  show "get_start_time_from_rti h big_endian t s
      = (Inl (Exit 1), s\<lparr>rti_out := rti_out s @ TIMESTAMP h # encode_ll t, rti_in := drop 8 rest\<rparr>)"
    using a by (simp add: get_start_time_from_rti_def wr1 wire_ll wr2 rd)
qed

theorem unexpected_tag_is_fatal_witness:
  "listen_to_rti \<lparr>FED_ID = 1, TIMESTAMP = 2, MESSAGE = 3, TIMED_MESSAGE = 4,
        CONNECT_NUM_RETRIES = 5, CONNECT_RETRY_INTERVAL = 2\<rparr>
     \<lparr>rti_in = [2, 3, 0, 7, 0, 0, 0, 0, 0], rti_out = [], rti_writable = True,
      current_time = 0, calls = []\<rparr>
   = (Error ERROR_UNRECOGNIZED_MESSAGE_TYPE,
      \<lparr>rti_in = [3, 0, 7, 0, 0, 0, 0, 0], rti_out = [], rti_writable = True,
       current_time = 0, calls = []\<rparr>)
   \<and> get_start_time_from_rti \<lparr>FED_ID = 1, TIMESTAMP = 2, MESSAGE = 3, TIMED_MESSAGE = 4,
        CONNECT_NUM_RETRIES = 5, CONNECT_RETRY_INTERVAL = 2\<rparr> False 1000
     \<lparr>rti_in = [3, 3, 0, 7, 0, 0, 0, 0, 0], rti_out = [], rti_writable = True,
      current_time = 0, calls = []\<rparr>
   = (Inl (Exit 1),
      \<lparr>rti_in = [], rti_out = [2, 0xe8, 0x03, 0, 0, 0, 0, 0, 0], rti_writable = True,
       current_time = 0, calls = []\<rparr>)"
  using unexpected_tag_is_fatal [of
      "\<lparr>rti_in = [2, 3, 0, 7, 0, 0, 0, 0, 0], rti_out = [], rti_writable = True,
        current_time = 0, calls = []\<rparr>" 2 "[3, 0, 7, 0, 0, 0, 0, 0]"
      "\<lparr>FED_ID = 1, TIMESTAMP = 2, MESSAGE = 3, TIMED_MESSAGE = 4,
        CONNECT_NUM_RETRIES = 5, CONNECT_RETRY_INTERVAL = 2\<rparr>" False 1000]
    unexpected_tag_is_fatal [of
      "\<lparr>rti_in = [3, 3, 0, 7, 0, 0, 0, 0, 0], rti_out = [], rti_writable = True,
        current_time = 0, calls = []\<rparr>" 3 "[3, 0, 7, 0, 0, 0, 0, 0]"
      "\<lparr>FED_ID = 1, TIMESTAMP = 2, MESSAGE = 3, TIMED_MESSAGE = 4,
        CONNECT_NUM_RETRIES = 5, CONNECT_RETRY_INTERVAL = 2\<rparr>" False 1000]
  by (simp add: encode_ll_def le_bytes_numeral)

section \<open>The round trip of a timed message\<close>

text \<open>
  What \<open>send_via_rti_timed\<close> writes after the TIMED_MESSAGE byte, a federate decodes
  again: the header gives back port, federate and length, the timestamp is the sender's
  logical time, and \<open>handle_timed_message\<close> schedules the very payload for the port.
\<close>

lemma timed_message_round_trip:
  assumes "port < 65536" and "federate < 65536" and "length message < 2 ^ 32"
    and "rti_writable s"
  shows "\<exists>frame. rti_out (snd (send_via_rti_timed h port federate message s))
             = rti_out s @ TIMED_MESSAGE h # frame
         \<and> (\<exists>port_id federate_id len.
               extract_header frame = (port_id, federate_id, len)
             \<and> ucast port_id = port \<and> ucast federate_id = federate
             \<and> unat len = length message)
         \<and> extract_ll (drop 8 frame) = current_time s
         \<and> handle_timed_message (r\<lparr>rti_in := frame\<rparr>)
             = (Inr (), r\<lparr>rti_in := [],
                  calls := calls r @ [Mutex_lock, Get_logical_time (current_time r),
                    Schedule_value (ucast port) (current_time s - current_time r) message,
                    Mutex_unlock]\<rparr>)"
proof -
  let ?len = "ucast (of_nat (length message) :: 64 word) :: 32 word"
  let ?header = "encode_ushort (ucast port) @ encode_ushort (ucast federate) @ encode_int ?len"
  let ?stamp = "encode_ll (current_time s)"
  let ?frame = "?header @ ?stamp @ message"
  have out: "rti_out (snd (send_via_rti_timed h port federate message s))
      = rti_out s @ TIMED_MESSAGE h # ?frame"
    using assms(1,2,4)
    by (simp add: send_via_rti_timed_def get_logical_time_def write_to_socket_def)
  have hdr: "extract_header ?header = (ucast port, ucast federate, ?len)"
    using extract_header_encode [of "ucast port" "ucast federate" ?len "[]"] by simp
  have hdr': "extract_header ?frame = (ucast port, ucast federate, ?len)"
    using extract_header_encode [of "ucast port" "ucast federate" ?len "?stamp @ message"]
    by simp
  have len: "unat ?len = length message"
    using assms(3) by (rule ucast_length)
  have l8: "length ?header = 8" "length ?stamp = 8"
    by (simp_all add: encode_ushort_def encode_int_def encode_ll_def length_le_bytes)
  have ts: "extract_ll (drop 8 ?frame) = current_time s"
    using l8 extract_encode_ll [of "current_time s" message] by simp
  have rx: "handle_timed_message (r\<lparr>rti_in := ?frame\<rparr>)
      = (Inr (), r\<lparr>rti_in := [],
           calls := calls r @ [Mutex_lock, Get_logical_time (current_time r),
             Schedule_value (ucast port) (current_time s - current_time r) message,
             Mutex_unlock]\<rparr>)"
    by (simp add: handle_timed_message_def read_from_socket_def extract_header_def
        extract_ll_def encode_ushort_def encode_int_def encode_ll_def length_le_bytes
        le_word_le_bytes take_bit_word_eq_self len pthread_mutex_lock_def
        get_logical_time_def schedule_value_def pthread_mutex_unlock_def)
  show ?thesis
    using out hdr' len ts rx assms(1,2) by (intro exI [of _ ?frame]) (simp add: ucast_port)
qed

end
